theory Spec2Isabelle
  imports Complex_Main
begin

section \<open>The function algebra of cil.optimisation.functions.Function\<close>

text \<open>
  The Python module builds expression trees of function objects.  A number is the real value
  of a Python or numpy number; every arithmetic operation of the source goes through the
  arithmetic \<open>K\<close>, so that no definition computes with exact reals where the program rounds.

  Every function object has an identity (a natural number).  Its private attribute
  \<open>_L\<close> lives in an attribute store indexed by that identity, so that a composite and
  the code that holds a reference to one of its children see the same \<open>_L\<close>.
  A \<open>ConstantFunction\<close> carries no identity: its \<open>_L\<close> is written once by
  \<open>__init__\<close> and never read, because its \<open>L\<close> property returns \<open>0.\<close> directly.
  \<open>ZeroFunction()\<close> is \<open>ConstantFunction(constant = 0.)\<close>.
\<close>

datatype error = NotImplementedError | TypeError | ValueError | AttributeError | ZeroDivisionError

subsection \<open>Arithmetic\<close>

text \<open>
  The element types of a vector.
\<close>

datatype dtype = Float64 | Float32 | IntT

text \<open>
  The arithmetic of the program is a parameter of every definition below.  The first three
  fields are Python's \<open>+\<close>, \<open>*\<close> and \<open>/\<close> on numbers.  The others are the elementwise
  kernels of the vector container, which is defined outside this module; each depends on
  the element types of its vector operand and of the buffer it writes to:
  \<open>x.divide(tau, out = out)\<close>, \<open>x.divide(tau, dtype = np.float32)\<close>,
  \<open>x.multiply(t, out = out)\<close>, \<open>x.add(y, out = out)\<close> for a vector \<open>y\<close>,
  \<open>x.subtract(center, out = out)\<close>, \<open>x.subtract(center, dtype = np.float32)\<close>,
  \<open>x.add(center, out = out)\<close>, and the cast of \<open>out.fill(x)\<close>.
\<close>

record arith =
  py_add :: "real \<Rightarrow> real \<Rightarrow> real"
  py_mul :: "real \<Rightarrow> real \<Rightarrow> real"
  py_div :: "real \<Rightarrow> real \<Rightarrow> real"
  np_divide :: "dtype \<Rightarrow> dtype \<Rightarrow> real \<Rightarrow> real \<Rightarrow> real"
  np_divide_f32 :: "dtype \<Rightarrow> real \<Rightarrow> real \<Rightarrow> real"
  np_multiply :: "dtype \<Rightarrow> dtype \<Rightarrow> real \<Rightarrow> real \<Rightarrow> real"
  np_add :: "dtype \<Rightarrow> dtype \<Rightarrow> dtype \<Rightarrow> real \<Rightarrow> real \<Rightarrow> real"
  np_subtract_c :: "dtype \<Rightarrow> dtype \<Rightarrow> real \<Rightarrow> real \<Rightarrow> real"
  np_subtract_c_f32 :: "dtype \<Rightarrow> real \<Rightarrow> real \<Rightarrow> real"
  np_add_c :: "dtype \<Rightarrow> dtype \<Rightarrow> real \<Rightarrow> real \<Rightarrow> real"
  np_cast :: "dtype \<Rightarrow> dtype \<Rightarrow> real \<Rightarrow> real"

text \<open>
  The arithmetic of CPython and numpy on IEEE 754 numbers, for the concrete runs.
  \<open>fl p\<close> rounds a real to the nearest number with a \<open>p\<close>-bit significand, ties to the
  even significand; binary64 has \<open>p = 53\<close> and binary32 has \<open>p = 24\<close>.  The exponent is
  unbounded: overflow, subnormal numbers, infinities and NaN are outside the model.
\<close>

definition rne :: "real \<Rightarrow> int" where
  "rne z = (let f = \<lfloor>z\<rfloor> in
     if z - of_int f < 1 / 2 then f
     else if 1 / 2 < z - of_int f then f + 1
     else if even f then f else f + 1)"

definition fl :: "nat \<Rightarrow> real \<Rightarrow> real" where
  "fl p x = (if x = 0 then 0
     else let e = \<lfloor>log 2 \<bar>x\<bar>\<rfloor>; u = 2 powr (of_int e - of_nat (p - 1))
          in of_int (rne (x / u)) * u)"

text \<open>
  Rounding into an element type (a cast to integers truncates), the type numpy computes in for
  two array operands, and for an array and a Python number.
\<close>

fun rnd :: "dtype \<Rightarrow> real \<Rightarrow> real" where
  "rnd Float64 x = fl 53 x"
| "rnd Float32 x = fl 24 x"
| "rnd IntT x = of_int (if 0 \<le> x then \<lfloor>x\<rfloor> else \<lceil>x\<rceil>)"

fun promote :: "dtype \<Rightarrow> dtype \<Rightarrow> dtype" where
  "promote Float32 Float32 = Float32"
| "promote IntT IntT = IntT"
| "promote d1 d2 = Float64"

fun with_scalar :: "dtype \<Rightarrow> dtype" where
  "with_scalar IntT = Float64"
| "with_scalar d = d"

text \<open>
  The result of a kernel is rounded in the type numpy computes in and then cast to the type
  of the buffer, which changes nothing when the two are the same.  A kernel called with
  \<open>dtype = np.float32\<close> casts its operands to binary32 first.  A center is taken as a
  binary64 array.
\<close>

definition cast :: "dtype \<Rightarrow> dtype \<Rightarrow> real \<Rightarrow> real" where
  "cast c d y = (if c = d then y else rnd d y)"

definition ieee :: arith where
  "ieee = \<lparr>
     py_add = (\<lambda>a b. fl 53 (a + b)),
     py_mul = (\<lambda>a b. fl 53 (a * b)),
     py_div = (\<lambda>a b. fl 53 (a / b)),
     np_divide = (\<lambda>dx d v t. cast (with_scalar dx) d
                    (rnd (with_scalar dx) (v / rnd (with_scalar dx) t))),
     np_divide_f32 = (\<lambda>dx v t. fl 24 (fl 24 v / fl 24 t)),
     np_multiply = (\<lambda>dx d v t. cast (with_scalar dx) d
                    (rnd (with_scalar dx) (v * rnd (with_scalar dx) t))),
     np_add = (\<lambda>dx dy d a b. cast (promote dx dy) d (rnd (promote dx dy) (a + b))),
     np_subtract_c = (\<lambda>dx d v b. cast (promote dx Float64) d (rnd (promote dx Float64) (v - b))),
     np_subtract_c_f32 = (\<lambda>dx v b. fl 24 (fl 24 v - fl 24 b)),
     np_add_c = (\<lambda>dx d v b. cast (promote dx Float64) d (rnd (promote dx Float64) (v + b))),
     np_cast = (\<lambda>dx d v. cast dx d v)\<rparr>"

subsection \<open>Function objects\<close>

text \<open>
  Modelled from the spec: leaf functions are defined outside this module.  A leaf is the base
  class \<open>Function\<close> whose \<open>__call__\<close> and \<open>proximal\<close> are either absent (the base
  class raises \<open>NotImplementedError\<close>) or supplied as a function of the contents of the
  argument vector.
\<close>

datatype func =
    Leaf nat "(real list \<Rightarrow> real) option" "(real list \<Rightarrow> real \<Rightarrow> real list) option"
  | ConstantFunction real
  | SumFunction nat "func list"
  | SumScalarFunction nat func real
  | ScaledFunction nat func real
  | TranslateFunction nat func "real list"

definition ZeroFunction :: func where
  "ZeroFunction = ConstantFunction 0"

text \<open>\<open>isinstance(f, SumFunction)\<close>: \<open>SumScalarFunction\<close> is a subclass of \<open>SumFunction\<close>.\<close>

fun is_SumFunction :: "func \<Rightarrow> bool" where
  "is_SumFunction (SumFunction i fs) = True"
| "is_SumFunction (SumScalarFunction i f c) = True"
| "is_SumFunction f = False"

text \<open>
  The attribute \<open>functions\<close>.  \<open>SumScalarFunction.__init__\<close> passes
  \<open>(function, ConstantFunction(constant))\<close> to \<open>SumFunction.__init__\<close>.
\<close>

fun functions_of :: "func \<Rightarrow> func list option" where
  "functions_of (SumFunction i fs) = Some fs"
| "functions_of (SumScalarFunction i f c) = Some [f, ConstantFunction c]"
| "functions_of f = None"

subsection \<open>Object creation\<close>

text \<open>
  The attribute store with the next unused identity.  \<open>Function.__init__(L)\<close> gives the new
  object its \<open>_L\<close>.
\<close>

record objs =
  next_id :: nat
  L_attr :: "nat \<Rightarrow> real option"

definition Function_init :: "real option \<Rightarrow> objs \<Rightarrow> nat \<times> objs" where
  "Function_init L h =
     (next_id h, \<lparr>next_id = Suc (next_id h), L_attr = (L_attr h)(next_id h := L)\<rparr>)"

definition SumFunction_init :: "func list \<Rightarrow> objs \<Rightarrow> error + (func \<times> objs)" where
  "SumFunction_init fs h =
     (let (i, h') = Function_init None h
      in if length fs < 2 then Inl ValueError else Inr (SumFunction i fs, h'))"

definition SumScalarFunction_init :: "func \<Rightarrow> real \<Rightarrow> objs \<Rightarrow> error + (func \<times> objs)" where
  "SumScalarFunction_init f c h =
     (let (i, h') = Function_init None h
      in if length [f, ConstantFunction c] < 2 then Inl ValueError
         else Inr (SumScalarFunction i f c, h'))"

subsection \<open>Addition\<close>

text \<open>The right operand of \<open>+\<close>: a function object, a number, or any other Python value.\<close>

datatype operand = Func func | Num real | Other

definition Function_add :: "func \<Rightarrow> operand \<Rightarrow> objs \<Rightarrow> error + (func \<times> objs)" where
  "Function_add self other h =
     (case other of
        Func g \<Rightarrow> SumFunction_init [self, g] h
      | Num c \<Rightarrow> SumScalarFunction_init self c h
      | Other \<Rightarrow> Inl ValueError)"

definition SumFunction_add :: "func \<Rightarrow> operand \<Rightarrow> objs \<Rightarrow> error + (func \<times> objs)" where
  "SumFunction_add self other h =
     (case other of
        Func g \<Rightarrow>
          (if is_SumFunction g
           then SumFunction_init (the (functions_of self) @ the (functions_of g)) h
           else SumFunction_init (the (functions_of self) @ [g]) h)
      | _ \<Rightarrow> Function_add self other h)"

text \<open>
  \<open>self + other\<close>: the method of the class of \<open>self\<close>.  \<open>SumFunction.__add__\<close> is
  inherited by \<open>SumScalarFunction\<close>; every other class has \<open>Function.__add__\<close>.
\<close>

definition add :: "func \<Rightarrow> operand \<Rightarrow> objs \<Rightarrow> error + (func \<times> objs)" where
  "add self other h =
     (if is_SumFunction self then SumFunction_add self other h else Function_add self other h)"

subsection \<open>The Lipschitz constant\<close>

type_synonym lstore = "nat \<Rightarrow> real option"

text \<open>
  The getter of the property \<open>L\<close> returns the value and the attribute store, since the
  composites write \<open>_L\<close> when read.  The source reads \<open>f.L\<close> once for the test
  \<open>is not None\<close> and once more for the value; an arithmetic operation on \<open>None\<close>
  raises \<open>TypeError\<close>.
\<close>

fun get_L :: "arith \<Rightarrow> func \<Rightarrow> lstore \<Rightarrow> error + (real option \<times> lstore)"
  and L_loop :: "arith \<Rightarrow> func list \<Rightarrow> real \<Rightarrow> lstore \<Rightarrow> error + (real option \<times> lstore)" where
  "get_L K (Leaf i c p) st = Inr (st i, st)"
| "get_L K (ConstantFunction c) st = Inr (Some 0, st)"
| "get_L K (SumFunction i fs) st =
     (case L_loop K fs 0 st of
        Inl e \<Rightarrow> Inl e
      | Inr (L, st1) \<Rightarrow> Inr ((st1(i := L)) i, st1(i := L)))"
| "get_L K (SumScalarFunction i f c) st =
     (if st i = None then
        (case get_L K f st of
           Inl e \<Rightarrow> Inl e
         | Inr (None, st1) \<Rightarrow> Inr ((st1(i := None)) i, st1(i := None))
         | Inr (Some v1, st1) \<Rightarrow>
             (case get_L K f st1 of
                Inl e \<Rightarrow> Inl e
              | Inr (v2, st2) \<Rightarrow> Inr ((st2(i := v2)) i, st2(i := v2))))
      else Inr (st i, st))"
| "get_L K (ScaledFunction i f a) st =
     (if st i = None then
        (case get_L K f st of
           Inl e \<Rightarrow> Inl e
         | Inr (None, st1) \<Rightarrow> Inr ((st1(i := None)) i, st1(i := None))
         | Inr (Some v1, st1) \<Rightarrow>
             (case get_L K f st1 of
                Inl e \<Rightarrow> Inl e
              | Inr (None, st2) \<Rightarrow> Inl TypeError
              | Inr (Some v2, st2) \<Rightarrow>
                  Inr ((st2(i := Some (py_mul K \<bar>a\<bar> v2))) i, st2(i := Some (py_mul K \<bar>a\<bar> v2)))))
      else Inr (st i, st))"
| "get_L K (TranslateFunction i f b) st = Inr (st i, st)"
| "L_loop K [] L st = Inr (Some L, st)"
| "L_loop K (f # fs) L st =
     (case get_L K f st of
        Inl e \<Rightarrow> Inl e
      | Inr (None, st1) \<Rightarrow> Inr (None, st1)
      | Inr (Some v1, st1) \<Rightarrow>
          (case get_L K f st1 of
             Inl e \<Rightarrow> Inl e
           | Inr (None, st2) \<Rightarrow> Inl TypeError
           | Inr (Some v2, st2) \<Rightarrow> L_loop K fs (py_add K L v2) st2))"

text \<open>
  The loop of \<open>SumFunction.Lmax\<close>: the list \<open>l\<close> of the children's constants, or
  \<open>None\<close> after the \<open>break\<close>.
\<close>

fun Lmax_loop :: "arith \<Rightarrow> func list \<Rightarrow> real list \<Rightarrow> lstore \<Rightarrow> error + (real list option \<times> lstore)" where
  "Lmax_loop K [] l st = Inr (Some l, st)"
| "Lmax_loop K (f # fs) l st =
     (case get_L K f st of
        Inl e \<Rightarrow> Inl e
      | Inr (None, st1) \<Rightarrow> Inr (None, st1)
      | Inr (Some v1, st1) \<Rightarrow>
          (case get_L K f st1 of
             Inl e \<Rightarrow> Inl e
           | Inr (None, st2) \<Rightarrow> Inl TypeError
           | Inr (Some v2, st2) \<Rightarrow> Lmax_loop K fs (l @ [v2]) st2))"

text \<open>
  Python's \<open>max(l)\<close>: \<open>TypeError\<close> when \<open>l\<close> is \<open>None\<close> (not iterable),
  \<open>ValueError\<close> when \<open>l\<close> is empty.
\<close>

fun py_max :: "real list option \<Rightarrow> error + real" where
  "py_max None = Inl TypeError"
| "py_max (Some []) = Inl ValueError"
| "py_max (Some (v # vs)) = Inr (fold max vs v)"

text \<open>
  The getter of \<open>SumFunction.Lmax\<close>.  It stores its result in \<open>_Lmax\<close>, an attribute
  nothing reads; the model leaves \<open>_Lmax\<close> out.  An object without \<open>functions\<close> has no
  \<open>Lmax\<close>.
\<close>

definition Lmax :: "arith \<Rightarrow> func \<Rightarrow> lstore \<Rightarrow> error + (real \<times> lstore)" where
  "Lmax K self st =
     (case functions_of self of
        None \<Rightarrow> Inl AttributeError
      | Some fs \<Rightarrow>
          (case Lmax_loop K fs [] st of
             Inl e \<Rightarrow> Inl e
           | Inr (l, st1) \<Rightarrow> (case py_max l of Inl e \<Rightarrow> Inl e | Inr m \<Rightarrow> Inr (m, st1))))"

text \<open>
  The value assigned to \<open>L\<close>: a number or some other Python value.  The setter of
  \<open>Function.L\<close> is the one every class but \<open>ConstantFunction\<close> ends in;
  \<open>ConstantFunction\<close> redefines the property \<open>L\<close> without a setter.
\<close>

datatype pyval = Number real | NotNumber

fun set_L :: "func \<Rightarrow> pyval \<Rightarrow> lstore \<Rightarrow> error + lstore" where
  "set_L (ConstantFunction c) v st = Inl AttributeError"
| "set_L f (Number r) st =
     (if r \<ge> 0 then
        (case f of
           Leaf i c p \<Rightarrow> Inr (st(i := Some r))
         | SumFunction i fs \<Rightarrow> Inr (st(i := Some r))
         | SumScalarFunction i g c \<Rightarrow> Inr (st(i := Some r))
         | ScaledFunction i g a \<Rightarrow> Inr (st(i := Some r))
         | TranslateFunction i g b \<Rightarrow> Inr (st(i := Some r))
         | ConstantFunction c \<Rightarrow> Inl AttributeError)
      else Inl TypeError)"
| "set_L f NotNumber st = Inl TypeError"

subsection \<open>Vectors\<close>

text \<open>
  Modelled from the spec: the vector container is defined outside this module (an opaque
  elementwise numeric container with add, subtract, multiply and divide, each with an optional
  output buffer, and with copy and fill).  A vector is a list of numbers with an element type.
  An operation that writes into an output buffer of integer element type raises
  \<open>TypeError\<close> (its result does not cast to integers), operands of different lengths raise
  \<open>ValueError\<close>, and an operation called with \<open>dtype = np.float32\<close> returns a new
  binary32 vector.  Vectors live in a store; an address is an index into it and a new vector
  gets the next index.
\<close>

record vec =
  dtype :: dtype
  elems :: "real list"

type_synonym store = "vec list"
type_synonym addr = nat

definition write_out :: "store \<Rightarrow> addr \<Rightarrow> real list \<Rightarrow> error + store" where
  "write_out s out vs =
     (if dtype (s ! out) = IntT then Inl TypeError
      else if length (elems (s ! out)) \<noteq> length vs then Inl ValueError
      else Inr (s[out := (s ! out)\<lparr>elems := vs\<rparr>]))"

definition new_vec :: "store \<Rightarrow> dtype \<Rightarrow> real list \<Rightarrow> store \<times> addr" where
  "new_vec s d vs = (s @ [\<lparr>dtype = d, elems = vs\<rparr>], length s)"





text \<open>
  \<open>x.subtract(center, out = out)\<close>, \<open>x.subtract(center, dtype = np.float32)\<close> and
  \<open>x.add(center, out = out)\<close>.  The center of a \<open>TranslateFunction\<close> is a value: the
  spec's data model says that centers do not change after construction.
\<close>

definition subtract_out :: "arith \<Rightarrow> store \<Rightarrow> addr \<Rightarrow> real list \<Rightarrow> addr \<Rightarrow> error + store" where
  "subtract_out K s x center out =
     (if dtype (s ! out) = IntT then Inl TypeError
      else if length (elems (s ! x)) \<noteq> length center then Inl ValueError
      else write_out s out
             (map2 (np_subtract_c K (dtype (s ! x)) (dtype (s ! out))) (elems (s ! x)) center))"

definition subtract_new :: "arith \<Rightarrow> store \<Rightarrow> addr \<Rightarrow> real list \<Rightarrow> error + (store \<times> addr)" where
  "subtract_new K s x center =
     (if length (elems (s ! x)) \<noteq> length center then Inl ValueError
      else Inr (new_vec s Float32
                  (map2 (np_subtract_c_f32 K (dtype (s ! x))) (elems (s ! x)) center)))"

definition add_center_out :: "arith \<Rightarrow> store \<Rightarrow> addr \<Rightarrow> real list \<Rightarrow> addr \<Rightarrow> error + store" where
  "add_center_out K s x center out =
     (if length (elems (s ! x)) \<noteq> length center then Inl ValueError
      else write_out s out
             (map2 (np_add_c K (dtype (s ! x)) (dtype (s ! out))) (elems (s ! x)) center))"

text \<open>\<open>x.copy()\<close> and \<open>out.fill(x)\<close>.\<close>

definition copy :: "store \<Rightarrow> addr \<Rightarrow> store \<times> addr" where
  "copy s x = (s @ [s ! x], length s)"

definition fill :: "arith \<Rightarrow> store \<Rightarrow> addr \<Rightarrow> addr \<Rightarrow> error + store" where
  "fill K s out x =
     write_out s out (map (np_cast K (dtype (s ! x)) (dtype (s ! out))) (elems (s ! x)))"


definition try_subtract :: "arith \<Rightarrow> store \<Rightarrow> addr \<Rightarrow> real list \<Rightarrow> error + (store \<times> addr)" where
  "try_subtract K s x center =
     (case subtract_out K s x center x of
        Inr s1 \<Rightarrow> Inr (s1, x)
      | Inl e \<Rightarrow> if e = TypeError then subtract_new K s x center else Inl e)"

subsection \<open>Evaluation\<close>

text \<open>
  \<open>__call__\<close>.  \<open>SumScalarFunction\<close> inherits the loop of \<open>SumFunction\<close> over its
  \<open>functions\<close>, the pair of \<open>function\<close> and \<open>ConstantFunction(constant)\<close>; the
  equation below is that loop unrolled (lemma \<open>call_SumScalarFunction_loop\<close>).
\<close>

fun call :: "arith \<Rightarrow> func \<Rightarrow> store \<Rightarrow> addr \<Rightarrow> error + (store \<times> real)"
  and call_loop :: "arith \<Rightarrow> func list \<Rightarrow> real \<Rightarrow> store \<Rightarrow> addr \<Rightarrow> error + (store \<times> real)" where
  "call K (Leaf i c p) s x =
     (case c of None \<Rightarrow> Inl NotImplementedError | Some cf \<Rightarrow> Inr (s, cf (elems (s ! x))))"
| "call K (ConstantFunction c) s x = Inr (s, c)"
| "call K (SumFunction i fs) s x = call_loop K fs 0 s x"
| "call K (SumScalarFunction i f c) s x =
     (case call K f s x of
        Inl e \<Rightarrow> Inl e
      | Inr (s1, v) \<Rightarrow> Inr (s1, py_add K (py_add K 0 v) c))"
| "call K (ScaledFunction i f a) s x =
     (case call K f s x of Inl e \<Rightarrow> Inl e | Inr (s1, v) \<Rightarrow> Inr (s1, py_mul K a v))"
| "call K (TranslateFunction i f b) s x =
     (case try_subtract K s x b of
        Inl e \<Rightarrow> Inl e
      | Inr (s1, tmp) \<Rightarrow>
          (case call K f s1 tmp of
             Inl e \<Rightarrow> Inl e
           | Inr (s2, val) \<Rightarrow>
               if tmp = x
               then (case add_center_out K s2 x b x of Inl e \<Rightarrow> Inl e | Inr s3 \<Rightarrow> Inr (s3, val))
               else Inr (s2, val)))"
| "call_loop K [] ret s x = Inr (s, ret)"
| "call_loop K (f # fs) ret s x =
     (case call K f s x of Inl e \<Rightarrow> Inl e | Inr (s1, v) \<Rightarrow> call_loop K fs (py_add K ret v) s1 x)"

subsection \<open>The proximal operator\<close>

text \<open>
  \<open>proximal(x, tau, out)\<close> returns the store and the returned object (\<open>None\<close> for
  Python's \<open>None\<close>).  A leaf with a proximal operator returns a new vector of the element
  type of its argument, or writes into \<open>out\<close> and returns \<open>None\<close>.  \<open>SumFunction\<close> has
  the method of the base class.
\<close>

fun proximal ::
  "arith \<Rightarrow> func \<Rightarrow> store \<Rightarrow> addr \<Rightarrow> real \<Rightarrow> addr option \<Rightarrow> error + (store \<times> addr option)" where
  "proximal K (Leaf i c p) s x tau out =
     (case p of
        None \<Rightarrow> Inl NotImplementedError
      | Some pf \<Rightarrow>
          (case out of
             None \<Rightarrow>
               (let (s1, r) = new_vec s (dtype (s ! x)) (pf (elems (s ! x)) tau)
                in Inr (s1, Some r))
           | Some ob \<Rightarrow>
               (case write_out s ob (pf (elems (s ! x)) tau) of
                  Inl e \<Rightarrow> Inl e
                | Inr s1 \<Rightarrow> Inr (s1, None))))"
| "proximal K (ConstantFunction c) s x tau out =
     (case out of
        None \<Rightarrow> (let (s1, r) = copy s x in Inr (s1, Some r))
      | Some ob \<Rightarrow> (case fill K s ob x of Inl e \<Rightarrow> Inl e | Inr s1 \<Rightarrow> Inr (s1, None)))"
| "proximal K (SumFunction i fs) s x tau out = Inl NotImplementedError"
| "proximal K (SumScalarFunction i f c) s x tau out = proximal K f s x tau out"
| "proximal K (ScaledFunction i f a) s x tau out = proximal K f s x (py_mul K tau a) out"
| "proximal K (TranslateFunction i f b) s x tau out =
     (case try_subtract K s x b of
        Inl e \<Rightarrow> Inl e
      | Inr (s1, tmp) \<Rightarrow>
          (case out of
             None \<Rightarrow>
               (case proximal K f s1 tmp tau None of
                  Inl e \<Rightarrow> Inl e
                | Inr (s2, None) \<Rightarrow> Inl AttributeError
                | Inr (s2, Some val) \<Rightarrow>
                    (case add_center_out K s2 val b val of
                       Inl e \<Rightarrow> Inl e
                     | Inr s3 \<Rightarrow>
                         if tmp = x
                         then (case add_center_out K s3 x b x of
                                 Inl e \<Rightarrow> Inl e
                               | Inr s4 \<Rightarrow> Inr (s4, Some val))
                         else Inr (s3, Some val)))
           | Some ob \<Rightarrow>
               (case proximal K f s1 tmp tau (Some ob) of
                  Inl e \<Rightarrow> Inl e
                | Inr (s2, r) \<Rightarrow>
                    (case add_center_out K s2 ob b ob of
                       Inl e \<Rightarrow> Inl e
                     | Inr s3 \<Rightarrow>
                         if tmp = x
                         then (case add_center_out K s3 x b x of
                                 Inl e \<Rightarrow> Inl e
                               | Inr s4 \<Rightarrow> Inr (s4, None))
                         else Inr (s3, None)))))"





section \<open>Predicates and values used in the statements\<close>

text \<open>
  A \<open>SumFunction\<close> built by its constructor has at least two children.
\<close>

fun children_ok :: "func \<Rightarrow> bool" where
  "children_ok (SumFunction i fs) = (2 \<le> length fs)"
| "children_ok f = True"

text \<open>
  The children that \<open>SumFunction.__add__\<close> takes from its right operand: the children of a
  \<open>SumFunction\<close>, or the operand itself.
\<close>

definition terms_of :: "func \<Rightarrow> func list" where
  "terms_of g = (if is_SumFunction g then the (functions_of g) else [g])"

abbreviation vec_of :: "dtype \<Rightarrow> real list \<Rightarrow> vec" where
  "vec_of d vs \<equiv> \<lparr>dtype = d, elems = vs\<rparr>"

text \<open>
  The nodes whose \<open>proximal\<close> is implemented on vectors of length \<open>n\<close>: no plain
  \<open>SumFunction\<close>, every leaf has a proximal operator that keeps the shape of its argument, and
  every center has the shape of the argument.
\<close>

fun implements_proximal :: "nat \<Rightarrow> func \<Rightarrow> bool" where
  "implements_proximal n (Leaf i c p) =
     (case p of None \<Rightarrow> False | Some pf \<Rightarrow> (\<forall>v t. length v = n \<longrightarrow> length (pf v t) = n))"
| "implements_proximal n (ConstantFunction c) = True"
| "implements_proximal n (SumFunction i fs) = False"
| "implements_proximal n (SumScalarFunction i f c) = implements_proximal n f"
| "implements_proximal n (ScaledFunction i f a) = implements_proximal n f"
| "implements_proximal n (TranslateFunction i f b) = (length b = n \<and> implements_proximal n f)"


text \<open>
  What \<open>proximal\<close> leaves in a floating-point argument of element type \<open>d\<close> that held
  \<open>v\<close>: every \<open>TranslateFunction\<close> on the way subtracts its center in place and adds it
  again in place after the inner call.  And the contents of the vector that \<open>proximal\<close>
  returns.  The lemmas below show that the store-passing functions compute both.
\<close>

fun left_in_x :: "arith \<Rightarrow> func \<Rightarrow> dtype \<Rightarrow> real list \<Rightarrow> real list" where
  "left_in_x K (SumScalarFunction i f c) d v = left_in_x K f d v"
| "left_in_x K (ScaledFunction i f a) d v = left_in_x K f d v"
| "left_in_x K (TranslateFunction i f b) d v =
     map2 (np_add_c K d d) (left_in_x K f d (map2 (np_subtract_c K d d) v b)) b"
| "left_in_x K F d v = v"

fun prox_val :: "arith \<Rightarrow> func \<Rightarrow> dtype \<Rightarrow> real list \<Rightarrow> real \<Rightarrow> real list" where
  "prox_val K (Leaf i c p) d v tau = (case p of None \<Rightarrow> [] | Some pf \<Rightarrow> pf v tau)"
| "prox_val K (ConstantFunction c) d v tau = v"
| "prox_val K (SumFunction i fs) d v tau = []"
| "prox_val K (SumScalarFunction i f c) d v tau = prox_val K f d v tau"
| "prox_val K (ScaledFunction i f a) d v tau = prox_val K f d v (py_mul K tau a)"
| "prox_val K (TranslateFunction i f b) d v tau =
     map2 (np_add_c K d d) (prox_val K f d (map2 (np_subtract_c K d d) v b) tau) b"

text \<open>
  The vector \<open>tmp\<close> of both \<open>proximal_conjugate\<close> methods and of
  \<open>TranslateFunction.proximal\<close> for an argument of element type \<open>d\<close> holding \<open>v\<close>:
  the argument itself, changed in place, when \<open>d\<close> is a floating-point type, and a new
  binary32 vector when \<open>d\<close> is the integer type.
\<close>

definition tmp_dtype :: "dtype \<Rightarrow> dtype" where
  "tmp_dtype d = (if d = IntT then Float32 else d)"


definition shifted :: "arith \<Rightarrow> dtype \<Rightarrow> real list \<Rightarrow> real list \<Rightarrow> real list" where
  "shifted K d v b =
     (if d = IntT then map2 (np_subtract_c_f32 K d) v b
      else map2 (np_subtract_c K d d) v b)"






section \<open>Properties\<close>

subsection \<open>Rounding\<close>


lemma fl_exponent:
  assumes "2 powr (of_int k) \<le> \<bar>x\<bar>" "\<bar>x\<bar> < 2 powr (of_int k + 1)"
  shows "fl p x = of_int (rne (x / 2 powr (of_int k - of_nat (p - 1)))) * 2 powr (of_int k - of_nat (p - 1))"
proof -
  have "(0::real) < 2 powr (of_int k)" by simp
  then have pos: "0 < \<bar>x\<bar>" using assms(1) by linarith
  have "\<lfloor>log 2 \<bar>x\<bar>\<rfloor> = k"
    using assms pos
    using floor_log_eq_powr_iff [of "\<bar>x\<bar>" 2 k] by simp
  then show ?thesis using pos by (simp add: fl_def Let_def)
qed

lemma fl_large:
  assumes "2 ^ k \<le> \<bar>x\<bar>" "\<bar>x\<bar> < 2 * 2 ^ k" "1 \<le> p"
  shows "fl p x = of_int (rne (x * 2 ^ (p - 1) / 2 ^ k)) * 2 ^ k / 2 ^ (p - 1)"
proof -
  have a: "2 powr (of_int (int k)) \<le> \<bar>x\<bar>"
    using assms(1) by (simp add: powr_realpow)
  have b: "\<bar>x\<bar> < 2 powr (of_int (int k) + 1)"
    using assms(2) by (simp add: powr_add powr_realpow)
  have u: "(2::real) powr (of_int (int k) - of_nat (p - 1)) = 2 ^ k / 2 ^ (p - 1)"
    by (simp add: powr_diff powr_realpow)
  show ?thesis
    unfolding fl_exponent [OF a b] u by simp
qed





lemma fl64_2p53: "fl 53 9007199254740992 = 9007199254740992"
  by (subst fl_large [where k = 53]) (simp_all add: rne_def Let_def)

lemma fl64_2p53_1: "fl 53 9007199254740993 = 9007199254740992"
  by (subst fl_large [where k = 53]) (simp_all add: rne_def Let_def)

lemma fl64_2p53_2: "fl 53 9007199254740994 = 9007199254740994"
  by (subst fl_large [where k = 53]) (simp_all add: rne_def Let_def)

lemma fl64_1: "fl 53 1 = 1"
  by (subst fl_large [where k = 0]) (simp_all add: rne_def Let_def)

lemma fl64_2: "fl 53 2 = 2"
  by (subst fl_large [where k = 1]) (simp_all add: rne_def Let_def)

lemma fl32_2p24_1: "fl 24 16777217 = 16777216"
  by (subst fl_large [where k = 24]) (simp_all add: rne_def Let_def)

lemma fl32_2p24: "fl 24 16777216 = 16777216"
  by (subst fl_large [where k = 24]) (simp_all add: rne_def Let_def)

lemma call_SumScalarFunction_loop:
  "call K (SumScalarFunction i f c) s x = call_loop K [f, ConstantFunction c] 0 s x"
  by (simp split: sum.splits prod.splits)

text \<open>
  Claim C6.  \<open>SumFunction(*functions)\<close> with fewer than two functions, in particular with a
  single one, raises \<open>ValueError\<close> (the spec's InvalidArgument); with two or more it returns
  the \<open>SumFunction\<close> whose \<open>functions\<close> are the arguments.
\<close>

theorem SumFunction_init_arity:
  "(length fs < 2 \<longrightarrow> SumFunction_init fs h = Inl ValueError) \<and>
   (2 \<le> length fs \<longrightarrow>
      (\<exists>i h'. SumFunction_init fs h = Inr (SumFunction i fs, h') \<and>
               functions_of (SumFunction i fs) = Some fs))"
  by (simp add: SumFunction_init_def Function_init_def)

theorem SumFunction_init_arity_witness:
  "length [ConstantFunction 1] < 2 \<and>
   SumFunction_init [ConstantFunction 1] \<lparr>next_id = 0, L_attr = \<lambda>i. None\<rparr> = Inl ValueError \<and>
   2 \<le> length [ConstantFunction 1, Leaf 0 None None] \<and>
   (\<exists>i h'. SumFunction_init [ConstantFunction 1, Leaf 0 None None] \<lparr>next_id = 1, L_attr = \<lambda>i. None\<rparr>
        = Inr (SumFunction i [ConstantFunction 1, Leaf 0 None None], h'))"
  using SumFunction_init_arity [of "[ConstantFunction 1]" "\<lparr>next_id = 0, L_attr = \<lambda>i. None\<rparr>"]
        SumFunction_init_arity [of "[ConstantFunction 1, Leaf 0 None None]" "\<lparr>next_id = 1, L_attr = \<lambda>i. None\<rparr>"]
  by simp

text \<open>
  Claim C4, as amended.  For every function object \<open>F\<close> (a \<open>SumFunction\<close> having its two
  or more children), \<open>F + other\<close> is a plain \<open>SumFunction\<close> when \<open>other\<close> is any
  function object, a \<open>ConstantFunction\<close> included; it is the \<open>SumScalarFunction\<close> of
  \<open>F\<close> and the number when \<open>other\<close> is a number; and it raises \<open>ValueError\<close> for any
  other operand.
\<close>

theorem add_result_class:
  "children_ok F \<Longrightarrow>
     (\<exists>i fs h'. add F (Func g) h = Inr (SumFunction i fs, h')) \<and>
     (\<exists>i h'. add F (Num c) h = Inr (SumScalarFunction i F c, h')) \<and>
     add F Other h = Inl ValueError"
  by (cases F)
     (auto simp: add_def Function_add_def SumFunction_add_def SumFunction_init_def
        SumScalarFunction_init_def Function_init_def)

theorem add_result_class_witness:
  "children_ok (SumFunction 0 [Leaf 1 None None, Leaf 2 None None]) \<and>
   (\<exists>i fs h'. add (SumFunction 0 [Leaf 1 None None, Leaf 2 None None]) (Func (ConstantFunction 5))
        \<lparr>next_id = 3, L_attr = \<lambda>i. None\<rparr> = Inr (SumFunction i fs, h')) \<and>
   (\<exists>i h'. add (SumFunction 0 [Leaf 1 None None, Leaf 2 None None]) (Num 5)
        \<lparr>next_id = 3, L_attr = \<lambda>i. None\<rparr>
      = Inr (SumScalarFunction i (SumFunction 0 [Leaf 1 None None, Leaf 2 None None]) 5, h')) \<and>
   add (SumFunction 0 [Leaf 1 None None, Leaf 2 None None]) Other
        \<lparr>next_id = 3, L_attr = \<lambda>i. None\<rparr> = Inl ValueError"
proof -
  have h1: "children_ok (SumFunction 0 [Leaf 1 None None, Leaf 2 None None])" by simp
  from add_result_class [OF h1, of "ConstantFunction 5" "\<lparr>next_id = 3, L_attr = \<lambda>i. None\<rparr>" 5] h1
  show ?thesis by blast
qed

text \<open>
  Claim C4 as stated fails: the test \<open>isinstance(other, Function)\<close> comes first in
  \<open>Function.__add__\<close>, so a function plus \<open>ConstantFunction(5)\<close> is a plain
  \<open>SumFunction\<close>, not a \<open>SumScalarFunction\<close>.
\<close>

theorem add_ConstantFunction_counterexample:
  "add (Leaf 0 None None) (Func (ConstantFunction 5)) \<lparr>next_id = 1, L_attr = \<lambda>i. None\<rparr>
     = Inr (SumFunction 1 [Leaf 0 None None, ConstantFunction 5],
            \<lparr>next_id = 2, L_attr = (\<lambda>i. None)(1 := None)\<rparr>) \<and>
   \<not> (\<exists>i f c h'. add (Leaf 0 None None) (Func (ConstantFunction 5))
          \<lparr>next_id = 1, L_attr = \<lambda>i. None\<rparr> = Inr (SumScalarFunction i f c, h'))"
  by (simp add: add_def Function_add_def SumFunction_init_def Function_init_def)

text \<open>
  Claim C5.  For a \<open>SumFunction\<close> of two leaves of which the second has \<open>L = None\<close>, the
  loop of \<open>Lmax\<close> sets \<open>l = None\<close> and leaves, and \<open>max(l)\<close> then raises
  \<open>TypeError\<close>: \<open>Lmax\<close> does not return \<open>None\<close>, whereas \<open>L\<close> on the same object
  does.
\<close>

theorem Lmax_None_child:
  "Lmax K (SumFunction 0 [Leaf 1 None None, Leaf 2 None None]) ((\<lambda>i. None)(1 := Some 3))
     = Inl TypeError \<and>
   get_L K (SumFunction 0 [Leaf 1 None None, Leaf 2 None None]) ((\<lambda>i. None)(1 := Some 3))
     = Inr (None, (\<lambda>i. None)(1 := Some 3, 0 := None))"
  by (simp add: Lmax_def)

lemma Lmax_defined:
  "Lmax K (SumFunction 0 [Leaf 1 None None, Leaf 2 None None]) ((\<lambda>i. None)(1 := Some 3, 2 := Some 5))
     = Inr (5, (\<lambda>i. None)(1 := Some 3, 2 := Some 5))"
  by (simp add: Lmax_def)

text \<open>
  Claim C9.  For \<open>ScaledFunction\<close> and \<open>SumScalarFunction\<close> with identity \<open>i\<close>: when
  \<open>_L\<close> holds a value, the getter of \<open>L\<close> returns it and touches nothing; when \<open>_L\<close>
  is \<open>None\<close> and the wrapped function's \<open>L\<close> reads as a number, the getter returns the
  derived value (Python's product of \<open>abs(scalar)\<close> and it, or it) and stores it in
  \<open>_L\<close>; and once a read has returned a number, a read in any later attribute store in
  which the object's own \<open>_L\<close> is as that read left it returns the same number, whatever
  the other objects' attributes have become.
\<close>

theorem composite_L_cached:
  "(st i = Some v \<longrightarrow>
      get_L K (ScaledFunction i f a) st = Inr (Some v, st) \<and>
      get_L K (SumScalarFunction i f c) st = Inr (Some v, st)) \<and>
   (st i = None \<and> get_L K f st = Inr (Some w, st1) \<and> get_L K f st1 = Inr (Some w', st2) \<longrightarrow>
      get_L K (ScaledFunction i f a) st
        = Inr (Some (py_mul K \<bar>a\<bar> w'), st2(i := Some (py_mul K \<bar>a\<bar> w'))) \<and>
      get_L K (SumScalarFunction i f c) st = Inr (Some w', st2(i := Some w'))) \<and>
   (get_L K (ScaledFunction i f a) st = Inr (Some v, st') \<and> st'' i = st' i \<longrightarrow>
      get_L K (ScaledFunction i f a) st'' = Inr (Some v, st'')) \<and>
   (get_L K (SumScalarFunction i f c) st = Inr (Some v, st') \<and> st'' i = st' i \<longrightarrow>
      get_L K (SumScalarFunction i f c) st'' = Inr (Some v, st''))"
proof (intro conjI impI)
  assume "get_L K (ScaledFunction i f a) st = Inr (Some v, st') \<and> st'' i = st' i"
  then have "st' i = Some v" "st'' i = st' i"
    by (auto split: if_splits sum.splits prod.splits option.splits)
  then show "get_L K (ScaledFunction i f a) st'' = Inr (Some v, st'')" by simp
next
  assume "get_L K (SumScalarFunction i f c) st = Inr (Some v, st') \<and> st'' i = st' i"
  then have "st' i = Some v" "st'' i = st' i"
    by (auto split: if_splits sum.splits prod.splits option.splits)
  then show "get_L K (SumScalarFunction i f c) st'' = Inr (Some v, st'')" by simp
qed simp_all

lemma ieee_mul_2_3: "py_mul ieee 2 3 = 6"
proof -
  have "fl 53 6 = 6"
    by (subst fl_large [where k = 2]) (simp_all add: rne_def Let_def)
  then show ?thesis by (simp add: ieee_def)
qed

theorem composite_L_cached_witness:
  "((\<lambda>j. None)(1 := Some (3::real))) (0::nat) = None \<and>
   get_L ieee (Leaf 1 None None) ((\<lambda>j. None)(1 := Some 3)) = Inr (Some 3, (\<lambda>j. None)(1 := Some 3)) \<and>
   get_L ieee (ScaledFunction 0 (Leaf 1 None None) (- 2)) ((\<lambda>j. None)(1 := Some 3))
     = Inr (Some 6, (\<lambda>j. None)(1 := Some 3, 0 := Some 6)) \<and>
   get_L ieee (SumScalarFunction 0 (Leaf 1 None None) 7) ((\<lambda>j. None)(1 := Some 3))
     = Inr (Some 3, (\<lambda>j. None)(1 := Some 3, 0 := Some 3)) \<and>
   ((\<lambda>j. None)(1 := Some 10, 0 := Some 6)) (0::nat)
     = ((\<lambda>j. None)(1 := Some (3::real), 0 := Some 6)) 0 \<and>
   get_L ieee (ScaledFunction 0 (Leaf 1 None None) (- 2)) ((\<lambda>j. None)(1 := Some 10, 0 := Some 6))
     = Inr (Some 6, (\<lambda>j. None)(1 := Some 10, 0 := Some 6)) \<and>
   get_L ieee (SumScalarFunction 0 (Leaf 1 None None) 7) ((\<lambda>j. None)(1 := Some 10, 0 := Some 6))
     = Inr (Some 6, (\<lambda>j. None)(1 := Some 10, 0 := Some 6))"
  using composite_L_cached [where K = ieee and st = "(\<lambda>j. None)(1 := Some 3)" and i = 0 and v = 6
          and f = "Leaf 1 None None" and a = "- 2" and c = 7 and w = 3
          and ?st1.0 = "(\<lambda>j. None)(1 := Some 3)" and w' = 3
          and ?st2.0 = "(\<lambda>j. None)(1 := Some 3)"
          and st' = "(\<lambda>j. None)(1 := Some 3, 0 := Some 6)"
          and st'' = "(\<lambda>j. None)(1 := Some 10, 0 := Some 6)"]
        composite_L_cached [where K = ieee and st = "(\<lambda>j. None)(1 := Some 10, 0 := Some 6)" and i = 0
          and v = 6 and f = "Leaf 1 None None" and a = "- 2" and c = 7 and w = 3
          and ?st1.0 = "(\<lambda>j. None)(1 := Some 3)" and w' = 3
          and ?st2.0 = "(\<lambda>j. None)(1 := Some 3)"
          and st' = "(\<lambda>j. None)(1 := Some 10, 0 := Some 6)"
          and st'' = "(\<lambda>j. None)(1 := Some 10, 0 := Some 6)"]
  by (simp add: ieee_mul_2_3)

text \<open>
  Claim C10.  In every attribute store the getter of \<open>L\<close> of a \<open>ConstantFunction\<close>, and of
  \<open>ZeroFunction\<close>, returns \<open>0\<close> and changes nothing; an assignment to its \<open>L\<close> raises
  \<open>AttributeError\<close> whatever the value; whereas on an object with the base class's property
  an assignment of a non-negative number succeeds and is what the getter returns afterwards.
\<close>

theorem ConstantFunction_L_fixed:
  "get_L K (ConstantFunction c) st = Inr (Some 0, st) \<and>
   set_L (ConstantFunction c) v st = Inl AttributeError \<and>
   get_L K ZeroFunction st = Inr (Some 0, st) \<and>
   set_L ZeroFunction v st = Inl AttributeError \<and>
   (0 \<le> r \<longrightarrow> (\<exists>st'. set_L (Leaf i cf pf) (Number r) st = Inr st' \<and>
                     get_L K (Leaf i cf pf) st' = Inr (Some r, st')))"
  by (simp add: ZeroFunction_def)

theorem ConstantFunction_L_fixed_witness:
  "(0::real) \<le> 5 \<and>
   get_L ieee (ConstantFunction 4) ((\<lambda>j. None)(0 := Some 9)) = Inr (Some 0, (\<lambda>j. None)(0 := Some 9)) \<and>
   set_L (ConstantFunction 4) (Number 5) ((\<lambda>j. None)(0 := Some 9)) = Inl AttributeError \<and>
   (\<exists>st'. set_L (Leaf 0 None None) (Number 5) ((\<lambda>j. None)(0 := Some 9)) = Inr st' \<and>
          get_L ieee (Leaf 0 None None) st' = Inr (Some 5, st'))"
  using ConstantFunction_L_fixed [of ieee 4 "(\<lambda>j. None)(0 := Some 9)" "Number 5" 5 0 None None]
  by simp

lemma add_left_Sum:
  assumes "is_SumFunction F" "children_ok F"
  shows "add F (Func G) h0 =
     Inr (SumFunction (next_id h0) (the (functions_of F) @ terms_of G),
          \<lparr>next_id = Suc (next_id h0), L_attr = (L_attr h0)(next_id h0 := None)\<rparr>)"
  using assms
  by (cases F)
     (auto simp: add_def SumFunction_add_def SumFunction_init_def Function_init_def terms_of_def)

lemma add_left_plain:
  assumes "\<not> is_SumFunction F"
  shows "add F (Func G) h0 =
     Inr (SumFunction (next_id h0) [F, G],
          \<lparr>next_id = Suc (next_id h0), L_attr = (L_attr h0)(next_id h0 := None)\<rparr>)"
  using assms
  by (simp add: add_def Function_add_def SumFunction_init_def Function_init_def)

text \<open>
  Claim C3, as amended.  Addition flattens on the left operand only.  A \<open>SumFunction\<close>
  \<open>F\<close> plus a function \<open>G\<close> is one \<open>SumFunction\<close> whose children are the children of
  \<open>F\<close> followed by the children of \<open>G\<close> when \<open>G\<close> is a \<open>SumFunction\<close> and by
  \<open>G\<close> itself otherwise, in insertion order.  A function \<open>F\<close> that is not a
  \<open>SumFunction\<close> plus \<open>G\<close> is the \<open>SumFunction\<close> of the two children \<open>F\<close> and
  \<open>G\<close>, also when \<open>G\<close> is a \<open>SumFunction\<close>.  Hence for \<open>f\<close>, \<open>g\<close>, \<open>h\<close>
  that are not instances of \<open>SumFunction\<close>, \<open>(f + g) + h\<close> has exactly the children
  \<open>f\<close>, \<open>g\<close>, \<open>h\<close>, and \<open>f + (g + h)\<close> has the two children \<open>f\<close> and the nested
  sum \<open>g + h\<close>.  On every store and argument the two fail alike, and where the calls of
  \<open>f\<close>, \<open>g\<close>, \<open>h\<close> in this order return \<open>vf\<close>, \<open>vg\<close>, \<open>vh\<close>, the first
  returns \<open>((0. + vf) + vg) + vh\<close> and the second \<open>(0. + vf) + ((0. + vg) + vh)\<close> in
  Python's addition.
\<close>

theorem add_grouping:
  "(is_SumFunction F \<and> children_ok F \<longrightarrow>
      (\<exists>h1. add F (Func G) h0 =
         Inr (SumFunction (next_id h0) (the (functions_of F) @ terms_of G), h1))) \<and>
   (\<not> is_SumFunction F \<longrightarrow>
      (\<exists>h1. add F (Func G) h0 = Inr (SumFunction (next_id h0) [F, G], h1))) \<and>
   (\<not> is_SumFunction f \<and> \<not> is_SumFunction g \<and> \<not> is_SumFunction h \<longrightarrow>
      (\<exists>fg gh r1 r2 h1 h2 h1' h2'.
         add f (Func g) h0 = Inr (fg, h1) \<and> add fg (Func h) h1 = Inr (r1, h2) \<and>
         add g (Func h) h0 = Inr (gh, h1') \<and> add f (Func gh) h1' = Inr (r2, h2') \<and>
         functions_of r1 = Some [f, g, h] \<and>
         functions_of gh = Some [g, h] \<and> functions_of r2 = Some [f, gh] \<and>
         (\<forall>s x. (\<forall>e. call K r1 s x = Inl e \<longleftrightarrow> call K r2 s x = Inl e) \<and>
            (\<forall>s1 s2 s3 vf vg vh.
               call K f s x = Inr (s1, vf) \<and> call K g s1 x = Inr (s2, vg) \<and>
               call K h s2 x = Inr (s3, vh) \<longrightarrow>
               call K r1 s x = Inr (s3, py_add K (py_add K (py_add K 0 vf) vg) vh) \<and>
               call K r2 s x =
                 Inr (s3, py_add K (py_add K 0 vf) (py_add K (py_add K 0 vg) vh))))))"
proof (intro conjI impI)
  assume "is_SumFunction F \<and> children_ok F"
  then show "\<exists>h1. add F (Func G) h0 =
      Inr (SumFunction (next_id h0) (the (functions_of F) @ terms_of G), h1)"
    using add_left_Sum [of F G h0] by blast
next
  assume "\<not> is_SumFunction F"
  then show "\<exists>h1. add F (Func G) h0 = Inr (SumFunction (next_id h0) [F, G], h1)"
    using add_left_plain [of F G h0] by blast
next
  assume ns: "\<not> is_SumFunction f \<and> \<not> is_SumFunction g \<and> \<not> is_SumFunction h"
  let ?i = "next_id h0"
  let ?h1 = "\<lparr>next_id = Suc ?i, L_attr = (L_attr h0)(?i := None)\<rparr>"
  let ?h2 = "\<lparr>next_id = Suc (Suc ?i), L_attr = (L_attr ?h1)(Suc ?i := None)\<rparr>"
  let ?fg = "SumFunction ?i [f, g]"
  let ?gh = "SumFunction ?i [g, h]"
  let ?r1 = "SumFunction (Suc ?i) [f, g, h]"
  let ?r2 = "SumFunction (Suc ?i) [f, ?gh]"
  have 1: "add f (Func g) h0 = Inr (?fg, ?h1)"
    using ns add_left_plain [of f g h0] by simp
  have 2: "add ?fg (Func h) ?h1 = Inr (?r1, ?h2)"
    using ns add_left_Sum [of ?fg h ?h1] by (simp add: terms_of_def)
  have 3: "add g (Func h) h0 = Inr (?gh, ?h1)"
    using ns add_left_plain [of g h h0] by simp
  have 4: "add f (Func ?gh) ?h1 = Inr (?r2, ?h2)"
    using ns add_left_plain [of f ?gh ?h1] by simp
  have 5: "\<forall>e. call K ?r1 s x = Inl e \<longleftrightarrow> call K ?r2 s x = Inl e" for s x
    by (auto split: sum.splits prod.splits)
  have 6: "\<forall>s1 s2 s3 vf vg vh.
       call K f s x = Inr (s1, vf) \<and> call K g s1 x = Inr (s2, vg) \<and>
       call K h s2 x = Inr (s3, vh) \<longrightarrow>
       call K ?r1 s x = Inr (s3, py_add K (py_add K (py_add K 0 vf) vg) vh) \<and>
       call K ?r2 s x = Inr (s3, py_add K (py_add K 0 vf) (py_add K (py_add K 0 vg) vh))" for s x
    by simp
  have 7: "functions_of ?r1 = Some [f, g, h]" "functions_of ?gh = Some [g, h]"
    "functions_of ?r2 = Some [f, ?gh]" by simp_all
  show "\<exists>fg gh r1 r2 h1 h2 h1' h2'.
         add f (Func g) h0 = Inr (fg, h1) \<and> add fg (Func h) h1 = Inr (r1, h2) \<and>
         add g (Func h) h0 = Inr (gh, h1') \<and> add f (Func gh) h1' = Inr (r2, h2') \<and>
         functions_of r1 = Some [f, g, h] \<and>
         functions_of gh = Some [g, h] \<and> functions_of r2 = Some [f, gh] \<and>
         (\<forall>s x. (\<forall>e. call K r1 s x = Inl e \<longleftrightarrow> call K r2 s x = Inl e) \<and>
            (\<forall>s1 s2 s3 vf vg vh.
               call K f s x = Inr (s1, vf) \<and> call K g s1 x = Inr (s2, vg) \<and>
               call K h s2 x = Inr (s3, vh) \<longrightarrow>
               call K r1 s x = Inr (s3, py_add K (py_add K (py_add K 0 vf) vg) vh) \<and>
               call K r2 s x =
                 Inr (s3, py_add K (py_add K 0 vf) (py_add K (py_add K 0 vg) vh))))"
    apply (rule exI [of _ ?fg], rule exI [of _ ?gh], rule exI [of _ ?r1], rule exI [of _ ?r2])
    apply (rule exI [of _ ?h1], rule exI [of _ ?h2], rule exI [of _ ?h1], rule exI [of _ ?h2])
    apply (intro conjI)
          apply (rule 1 2 3 4 7)+
    using 5 6 by blast
qed

theorem add_grouping_witness:
  "is_SumFunction (SumFunction 0 [Leaf 1 None None, Leaf 2 None None]) \<and>
   children_ok (SumFunction 0 [Leaf 1 None None, Leaf 2 None None]) \<and>
   (\<exists>h1. add (SumFunction 0 [Leaf 1 None None, Leaf 2 None None])
            (Func (SumFunction 3 [Leaf 4 None None, ConstantFunction 2]))
            \<lparr>next_id = 5, L_attr = \<lambda>i. None\<rparr>
      = Inr (SumFunction 5 [Leaf 1 None None, Leaf 2 None None, Leaf 4 None None,
                             ConstantFunction 2], h1)) \<and>
   \<not> is_SumFunction (ConstantFunction 1) \<and> \<not> is_SumFunction (ConstantFunction 2) \<and>
   \<not> is_SumFunction (ScaledFunction 1 (ConstantFunction 3) 2) \<and>
   call ieee (ConstantFunction 1) [] 0 = Inr ([], 1) \<and>
   call ieee (ConstantFunction 2) [] 0 = Inr ([], 2) \<and>
   call ieee (ScaledFunction 1 (ConstantFunction 3) 2) [] 0 = Inr ([], py_mul ieee 2 3) \<and>
   (\<exists>fg gh r1 r2 h1 h2 h1' h2'.
      add (ConstantFunction 1) (Func (ConstantFunction 2)) \<lparr>next_id = 5, L_attr = \<lambda>i. None\<rparr>
        = Inr (fg, h1) \<and>
      add fg (Func (ScaledFunction 1 (ConstantFunction 3) 2)) h1 = Inr (r1, h2) \<and>
      add (ConstantFunction 2) (Func (ScaledFunction 1 (ConstantFunction 3) 2))
          \<lparr>next_id = 5, L_attr = \<lambda>i. None\<rparr> = Inr (gh, h1') \<and>
      add (ConstantFunction 1) (Func gh) h1' = Inr (r2, h2') \<and>
      functions_of r1 = Some [ConstantFunction 1, ConstantFunction 2,
                               ScaledFunction 1 (ConstantFunction 3) 2] \<and>
      functions_of gh = Some [ConstantFunction 2, ScaledFunction 1 (ConstantFunction 3) 2] \<and>
      functions_of r2 = Some [ConstantFunction 1, gh] \<and>
      call ieee r1 [] 0
        = Inr ([], py_add ieee (py_add ieee (py_add ieee 0 1) 2) (py_mul ieee 2 3)) \<and>
      call ieee r2 [] 0
        = Inr ([], py_add ieee (py_add ieee 0 1) (py_add ieee (py_add ieee 0 2) (py_mul ieee 2 3))))"
proof -
  let ?S = "SumFunction 0 [Leaf 1 None None, Leaf 2 None None]"
  let ?G = "SumFunction 3 [Leaf 4 None None, ConstantFunction 2]"
  let ?objs = "\<lparr>next_id = 5, L_attr = \<lambda>i. None\<rparr>"
  let ?f = "ConstantFunction 1"
  let ?g = "ConstantFunction 2"
  let ?h = "ScaledFunction 1 (ConstantFunction 3) 2"
  have a: "is_SumFunction ?S \<and> children_ok ?S" by simp
  have b: "\<not> is_SumFunction ?f \<and> \<not> is_SumFunction ?g \<and> \<not> is_SumFunction ?h" by simp
  have c: "call ieee ?f [] 0 = Inr ([], 1) \<and> call ieee ?g [] 0 = Inr ([], 2) \<and>
      call ieee ?h [] 0 = Inr ([], py_mul ieee 2 3)" by simp
  have t: "the (functions_of ?S) @ terms_of ?G =
      [Leaf 1 None None, Leaf 2 None None, Leaf 4 None None, ConstantFunction 2]"
    by (simp add: terms_of_def)
  have n: "next_id ?objs = 5" by simp
  note g = add_grouping [where K = ieee and ?h0.0 = ?objs and F = ?S and G = ?G
     and f = ?f and g = ?g and h = ?h]
  from g a have 1: "\<exists>h1. add ?S (Func ?G) ?objs =
      Inr (SumFunction (next_id ?objs) (the (functions_of ?S) @ terms_of ?G), h1)"
    by blast
  from g b obtain fg gh r1 r2 h1 h2 h1' h2' where ad:
      "add ?f (Func ?g) ?objs = Inr (fg, h1)" "add fg (Func ?h) h1 = Inr (r1, h2)"
      "add ?g (Func ?h) ?objs = Inr (gh, h1')" "add ?f (Func gh) h1' = Inr (r2, h2')"
      "functions_of r1 = Some [?f, ?g, ?h]" "functions_of gh = Some [?g, ?h]"
      "functions_of r2 = Some [?f, gh]"
    and ev: "\<forall>s x. (\<forall>e. call ieee r1 s x = Inl e \<longleftrightarrow> call ieee r2 s x = Inl e) \<and>
      (\<forall>s1 s2 s3 vf vg vh.
         call ieee ?f s x = Inr (s1, vf) \<and> call ieee ?g s1 x = Inr (s2, vg) \<and>
         call ieee ?h s2 x = Inr (s3, vh) \<longrightarrow>
         call ieee r1 s x = Inr (s3, py_add ieee (py_add ieee (py_add ieee 0 vf) vg) vh) \<and>
         call ieee r2 s x =
           Inr (s3, py_add ieee (py_add ieee 0 vf) (py_add ieee (py_add ieee 0 vg) vh)))"
    by blast
  from ev have "\<forall>s1 s2 s3 vf vg vh.
         call ieee ?f [] 0 = Inr (s1, vf) \<and> call ieee ?g s1 0 = Inr (s2, vg) \<and>
         call ieee ?h s2 0 = Inr (s3, vh) \<longrightarrow>
         call ieee r1 [] 0 = Inr (s3, py_add ieee (py_add ieee (py_add ieee 0 vf) vg) vh) \<and>
         call ieee r2 [] 0 =
           Inr (s3, py_add ieee (py_add ieee 0 vf) (py_add ieee (py_add ieee 0 vg) vh))"
    by blast
  then have "call ieee ?f [] 0 = Inr ([], 1) \<and> call ieee ?g [] 0 = Inr ([], 2) \<and>
         call ieee ?h [] 0 = Inr ([], py_mul ieee 2 3) \<longrightarrow>
         call ieee r1 [] 0
           = Inr ([], py_add ieee (py_add ieee (py_add ieee 0 1) 2) (py_mul ieee 2 3)) \<and>
         call ieee r2 [] 0
           = Inr ([], py_add ieee (py_add ieee 0 1) (py_add ieee (py_add ieee 0 2) (py_mul ieee 2 3)))"
    by blast
  with c have cv: "call ieee r1 [] 0
           = Inr ([], py_add ieee (py_add ieee (py_add ieee 0 1) 2) (py_mul ieee 2 3))"
      "call ieee r2 [] 0
           = Inr ([], py_add ieee (py_add ieee 0 1) (py_add ieee (py_add ieee 0 2) (py_mul ieee 2 3)))"
    by blast+
  have 2: "\<exists>fg gh r1 r2 h1 h2 h1' h2'.
      add ?f (Func ?g) ?objs = Inr (fg, h1) \<and> add fg (Func ?h) h1 = Inr (r1, h2) \<and>
      add ?g (Func ?h) ?objs = Inr (gh, h1') \<and> add ?f (Func gh) h1' = Inr (r2, h2') \<and>
      functions_of r1 = Some [?f, ?g, ?h] \<and> functions_of gh = Some [?g, ?h] \<and>
      functions_of r2 = Some [?f, gh] \<and>
      call ieee r1 [] 0
        = Inr ([], py_add ieee (py_add ieee (py_add ieee 0 1) 2) (py_mul ieee 2 3)) \<and>
      call ieee r2 [] 0
        = Inr ([], py_add ieee (py_add ieee 0 1) (py_add ieee (py_add ieee 0 2) (py_mul ieee 2 3)))"
    using ad cv by blast
  show ?thesis
    using a b c 1 2 unfolding t n by blast
qed

lemma ieee_add_values:
  "py_add ieee 0 9007199254740992 = 9007199254740992"
  "py_add ieee 9007199254740992 1 = 9007199254740992"
  "py_add ieee 0 1 = 1"
  "py_add ieee 1 1 = 2"
  "py_add ieee 9007199254740992 2 = 9007199254740994"
  by (simp_all add: ieee_def fl64_2p53 fl64_2p53_1 fl64_2p53_2 fl64_1 fl64_2)

text \<open>
  Claim C3 as stated fails twice.  For three constant functions \<open>f + (g + h)\<close> has two
  children, the second a nested \<open>SumFunction\<close>.  And for the constants \<open>2^53\<close>, \<open>1\<close>,
  \<open>1\<close> the two groupings evaluate to different numbers in binary64: \<open>(f + g) + h\<close> to
  \<open>9007199254740992\<close> and \<open>f + (g + h)\<close> to \<open>9007199254740994\<close>.
\<close>

theorem add_grouping_counterexample:
  "add (ConstantFunction 1) (Func (ConstantFunction 1)) \<lparr>next_id = 0, L_attr = \<lambda>i. None\<rparr>
     = Inr (SumFunction 0 [ConstantFunction 1, ConstantFunction 1],
            \<lparr>next_id = 1, L_attr = (\<lambda>i. None)(0 := None)\<rparr>) \<and>
   add (ConstantFunction 9007199254740992)
       (Func (SumFunction 0 [ConstantFunction 1, ConstantFunction 1]))
       \<lparr>next_id = 1, L_attr = (\<lambda>i. None)(0 := None)\<rparr>
     = Inr (SumFunction 1 [ConstantFunction 9007199254740992,
                            SumFunction 0 [ConstantFunction 1, ConstantFunction 1]],
            \<lparr>next_id = 2, L_attr = (\<lambda>i. None)(0 := None, 1 := None)\<rparr>) \<and>
   length (the (functions_of
      (SumFunction 1 [ConstantFunction 9007199254740992,
                      SumFunction 0 [ConstantFunction 1, ConstantFunction 1]]))) = 2 \<and>
   add (ConstantFunction 9007199254740992) (Func (ConstantFunction 1))
       \<lparr>next_id = 0, L_attr = \<lambda>i. None\<rparr>
     = Inr (SumFunction 0 [ConstantFunction 9007199254740992, ConstantFunction 1],
            \<lparr>next_id = 1, L_attr = (\<lambda>i. None)(0 := None)\<rparr>) \<and>
   add (SumFunction 0 [ConstantFunction 9007199254740992, ConstantFunction 1])
       (Func (ConstantFunction 1)) \<lparr>next_id = 1, L_attr = (\<lambda>i. None)(0 := None)\<rparr>
     = Inr (SumFunction 1 [ConstantFunction 9007199254740992, ConstantFunction 1,
                            ConstantFunction 1],
            \<lparr>next_id = 2, L_attr = (\<lambda>i. None)(0 := None, 1 := None)\<rparr>) \<and>
   call ieee (SumFunction 1 [ConstantFunction 9007199254740992, ConstantFunction 1,
                             ConstantFunction 1]) [] 0
     = Inr ([], 9007199254740992) \<and>
   call ieee (SumFunction 1 [ConstantFunction 9007199254740992,
                             SumFunction 0 [ConstantFunction 1, ConstantFunction 1]]) [] 0
     = Inr ([], 9007199254740994)"
  by (simp add: add_def Function_add_def SumFunction_add_def SumFunction_init_def
        Function_init_def ieee_add_values)

subsection \<open>Vector operations that succeed\<close>

lemma vec_of_eq: "dtype r = d \<Longrightarrow> r\<lparr>elems := vs\<rparr> = vec_of d vs"
  by (cases r) simp

lemma vec_of_self: "dtype r = d \<Longrightarrow> vec_of d (elems r) = r"
  by (cases r) simp

lemma write_out_ok:
  "dtype (s ! ob) = d \<Longrightarrow> d \<noteq> IntT \<Longrightarrow> length (elems (s ! ob)) = length vs \<Longrightarrow>
     write_out s ob vs = Inr (s[ob := vec_of d vs])"
  by (simp add: write_out_def vec_of_eq)

lemma length_left_in_x:
  "implements_proximal n F \<Longrightarrow> length v = n \<Longrightarrow> length (left_in_x K F d v) = n"
  by (induction F arbitrary: v) (auto split: option.splits)

lemma length_prox_val:
  "implements_proximal n F \<Longrightarrow> length v = n \<Longrightarrow> length (prox_val K F d v tau) = n"
  by (induction F arbitrary: v tau) (auto split: option.splits)


lemma try_subtract_Float:
  "dtype (s ! x) = d \<Longrightarrow> d \<noteq> IntT \<Longrightarrow> length (elems (s ! x)) = length b \<Longrightarrow>
     try_subtract K s x b =
       Inr (s[x := vec_of d (map2 (np_subtract_c K d d) (elems (s ! x)) b)], x)"
  by (simp add: try_subtract_def subtract_out_def write_out_ok)

lemma try_subtract_Int:
  "dtype (s ! x) = IntT \<Longrightarrow> length (elems (s ! x)) = length b \<Longrightarrow>
     try_subtract K s x b =
       Inr (s @ [vec_of Float32 (map2 (np_subtract_c_f32 K IntT) (elems (s ! x)) b)], length s)"
  by (simp add: try_subtract_def subtract_out_def subtract_new_def new_vec_def)



subsection \<open>What proximal computes\<close>

lemma proximal_None:
  assumes "implements_proximal n F" "x < length s" "dtype (s ! x) = d" "d \<noteq> IntT"
    "length (elems (s ! x)) = n"
  shows "\<exists>ws. proximal K F s x tau None =
           Inr (s[x := vec_of d (left_in_x K F d (elems (s ! x)))] @ ws @
                  [vec_of d (prox_val K F d (elems (s ! x)) tau)],
                Some (length s + length ws))"
  using assms
proof (induction F arbitrary: s tau)
  case (Leaf i c p)
  then show ?case
    by (auto simp: new_vec_def vec_of_self split: option.splits intro: exI [of _ "[]"])
next
  case (ConstantFunction c)
  then show ?case
    by (auto simp: copy_def vec_of_self intro: exI [of _ "[]"])
next
  case (SumFunction i fs)
  then show ?case by simp
next
  case (SumScalarFunction i f c)
  then show ?case by simp
next
  case (ScaledFunction i f a)
  then show ?case by simp
next
  case (TranslateFunction i f b)
  let ?v = "elems (s ! x)"
  let ?sub = "map2 (np_subtract_c K d d) ?v b"
  let ?s1 = "s[x := vec_of d ?sub]"
  have lb: "length b = n" and impl: "implements_proximal n f"
    using TranslateFunction.prems(1) by simp_all
  have t: "try_subtract K s x b = Inr (?s1, x)"
    using TranslateFunction.prems lb by (simp add: try_subtract_Float)
  have s1x: "?s1 ! x = vec_of d ?sub"
    using TranslateFunction.prems(2) by simp
  have ls: "length ?sub = n" using TranslateFunction.prems(5) lb by simp
  let ?L = "left_in_x K f d ?sub"
  let ?p = "prox_val K f d ?sub tau"
  obtain ws where inner: "proximal K f ?s1 x tau None =
      Inr (s[x := vec_of d ?L] @ ws @ [vec_of d ?p], Some (length s + length ws))"
    using TranslateFunction.IH [OF impl, of ?s1 tau] TranslateFunction.prems(2,4) ls s1x
    by auto
  let ?s2 = "s[x := vec_of d ?L] @ ws @ [vec_of d ?p]"
  let ?val = "length s + length ws"
  have lp: "length ?p = n" using length_prox_val [OF impl ls] .
  have lL: "length ?L = n" using length_left_in_x [OF impl ls] .
  have s2val: "?s2 ! ?val = vec_of d ?p"
    by (simp add: nth_append)
  have a1: "add_center_out K ?s2 ?val b ?val =
      Inr (s[x := vec_of d ?L] @ ws @ [vec_of d (map2 (np_add_c K d d) ?p b)])"
    using lp lb s2val TranslateFunction.prems(4)
    by (simp add: add_center_out_def write_out_ok list_update_append)
  let ?s3 = "s[x := vec_of d ?L] @ ws @ [vec_of d (map2 (np_add_c K d d) ?p b)]"
  have s3x: "?s3 ! x = vec_of d ?L"
    using TranslateFunction.prems(2) by (simp add: nth_append)
  have a2: "add_center_out K ?s3 x b x =
      Inr (s[x := vec_of d (map2 (np_add_c K d d) ?L b)] @ ws @
           [vec_of d (map2 (np_add_c K d d) ?p b)])"
    using TranslateFunction.prems(2,4) lb lL s3x
    by (simp add: add_center_out_def write_out_ok list_update_append)
  show ?case
    using t inner a1 a2 by (auto intro: exI [of _ ws])
qed


subsection \<open>What proximal_conjugate computes\<close>






subsection \<open>Rounding of the scale-back\<close>








lemma proximal_None_value:
  assumes "implements_proximal n F" "y < length t" "dtype (t ! y) = d" "d \<noteq> IntT"
    "length (elems (t ! y)) = n"
  shows "\<exists>t' p. proximal K F t y tau None = Inr (t', Some p) \<and>
           t' ! p = vec_of d (prox_val K F d (elems (t ! y)) tau)"
proof -
  obtain ws where "proximal K F t y tau None =
      Inr (t[y := vec_of d (left_in_x K F d (elems (t ! y)))] @ ws @
             [vec_of d (prox_val K F d (elems (t ! y)) tau)], Some (length t + length ws))"
    using proximal_None [OF assms] by blast
  moreover have "(t[y := vec_of d (left_in_x K F d (elems (t ! y)))] @ ws @
      [vec_of d (prox_val K F d (elems (t ! y)) tau)]) ! (length t + length ws)
      = vec_of d (prox_val K F d (elems (t ! y)) tau)"
    by (simp add: nth_append)
  ultimately show ?thesis by blast
qed


lemma tmp_dtype_float: "tmp_dtype d \<noteq> IntT"
  by (simp add: tmp_dtype_def)





lemma fl32_values:
  "fl 24 1 = 1" "fl 24 (- 1) = - 1" "fl 24 (- 16777216) = - 16777216"
  "fl 24 16777218 = 16777218" "fl 24 6 = 6" "fl 24 5 = 5"
       apply (subst fl_large [where k = 0]; simp add: rne_def Let_def)
      apply (subst fl_large [where k = 0]; simp add: rne_def Let_def)
     apply (subst fl_large [where k = 24]; simp add: rne_def Let_def)
    apply (subst fl_large [where k = 24]; simp add: rne_def Let_def)
   apply (subst fl_large [where k = 2]; simp add: rne_def Let_def)
  apply (subst fl_large [where k = 2]; simp add: rne_def Let_def)
  done

lemma fl64_more:
  "fl 53 16777217 = 16777217" "fl 53 6 = 6"
   apply (subst fl_large [where k = 24]; simp add: rne_def Let_def)
  apply (subst fl_large [where k = 2]; simp add: rne_def Let_def)
  done


lemma TranslateFunction_proximal_None:
  assumes impl: "implements_proximal n f" and lb: "length b = n" and x: "x < length s"
    and n: "length (elems (s ! x)) = n"
  shows "\<exists>s'. proximal K (TranslateFunction i f b) s x tau None =
           Inr (s' @ [vec_of (tmp_dtype (dtype (s ! x)))
                        (map2 (np_add_c K (tmp_dtype (dtype (s ! x))) (tmp_dtype (dtype (s ! x))))
                           (prox_val K f (tmp_dtype (dtype (s ! x)))
                              (shifted K (dtype (s ! x)) (elems (s ! x)) b) tau) b)],
                Some (length s'))"
proof (cases "dtype (s ! x) = IntT")
  case False
  have "implements_proximal n (TranslateFunction i f b)"
    using impl lb by simp
  from proximal_None [OF this x refl False n, of K tau]
  obtain ws where "proximal K (TranslateFunction i f b) s x tau None =
      Inr ((s[x := vec_of (dtype (s ! x))
                 (left_in_x K (TranslateFunction i f b) (dtype (s ! x)) (elems (s ! x)))] @ ws) @
           [vec_of (dtype (s ! x))
              (prox_val K (TranslateFunction i f b) (dtype (s ! x)) (elems (s ! x)) tau)],
           Some (length (s[x := vec_of (dtype (s ! x))
                 (left_in_x K (TranslateFunction i f b) (dtype (s ! x)) (elems (s ! x)))] @ ws)))"
    by auto
  then show ?thesis
    using False by (auto simp: tmp_dtype_def shifted_def simp del: left_in_x.simps)
next
  case True
  let ?v = "elems (s ! x)"
  let ?d = "map2 (np_subtract_c_f32 K IntT) ?v b"
  let ?p = "prox_val K f Float32 ?d tau"
  let ?L = "left_in_x K f Float32 ?d"
  let ?s1 = "s @ [vec_of Float32 ?d]"
  have t: "try_subtract K s x b = Inr (?s1, length s)"
    using try_subtract_Int [OF True] n lb by simp
  have s1t: "?s1 ! length s = vec_of Float32 ?d" by simp
  have ld: "length ?d = n" using n lb by simp
  obtain ws where inner: "proximal K f ?s1 (length s) tau None =
      Inr (?s1[length s := vec_of Float32 ?L] @ ws @ [vec_of Float32 ?p],
           Some (length ?s1 + length ws))"
    using proximal_None [OF impl, of "length s" ?s1 Float32 K tau] ld s1t by auto
  have s1u: "?s1[length s := vec_of Float32 ?L] = s @ [vec_of Float32 ?L]" by simp
  let ?val = "length ?s1 + length ws"
  let ?s2 = "s @ [vec_of Float32 ?L] @ ws @ [vec_of Float32 ?p]"
  have inner': "proximal K f ?s1 (length s) tau None = Inr (?s2, Some ?val)"
    using inner s1u by simp
  have lp: "length ?p = n" using length_prox_val [OF impl ld] .
  have s2v: "?s2 ! ?val = vec_of Float32 ?p" by (simp add: nth_append)
  have a1: "add_center_out K ?s2 ?val b ?val =
      Inr (s @ [vec_of Float32 ?L] @ ws @ [vec_of Float32 (map2 (np_add_c K Float32 Float32) ?p b)])"
    using s2v lp lb by (simp add: add_center_out_def write_out_ok list_update_append)
  have ne: "length s \<noteq> x" using x by simp
  have "proximal K (TranslateFunction i f b) s x tau None =
      Inr ((s @ [vec_of Float32 ?L] @ ws) @
             [vec_of Float32 (map2 (np_add_c K Float32 Float32) ?p b)],
           Some (length (s @ [vec_of Float32 ?L] @ ws)))"
    using t inner' a1 ne by simp
  then show ?thesis
    using True by (auto simp: tmp_dtype_def shifted_def)
qed

text \<open>
  Claim C8, as amended.  For a \<open>TranslateFunction\<close> with center \<open>b\<close> around a node
  \<open>f\<close> that implements \<open>proximal\<close> on vectors of the length of \<open>x\<close> and \<open>b\<close>, and
  every step \<open>tau\<close>, \<open>proximal(x, tau)\<close> returns a vector of the element type of
  \<open>tmp\<close> holding \<open>add(p, b)\<close> as the container computes it in place in that type, where
  \<open>p\<close> is what \<open>f.proximal(y, tau)\<close> returns on any vector \<open>y\<close> that holds what
  \<open>tmp\<close> holds: \<open>subtract(x, b)\<close> computed in the element type of \<open>x\<close> for a
  floating-point \<open>x\<close>, and computed as binary32 for an \<open>x\<close> of integer type.
\<close>

theorem TranslateFunction_proximal_shift:
  assumes "implements_proximal n f" "length b = n" "x < length s" "length (elems (s ! x)) = n"
    and "d = dtype (s ! x)" "v = elems (s ! x)" "td = tmp_dtype d"
  shows "\<exists>s' r. proximal K (TranslateFunction i f b) s x tau None = Inr (s', Some r) \<and>
      dtype (s' ! r) = td \<and>
      (\<forall>t y. y < length t \<and> dtype (t ! y) = td \<and> elems (t ! y) = shifted K d v b \<longrightarrow>
         (\<exists>t' p. proximal K f t y tau None = Inr (t', Some p) \<and>
            elems (s' ! r) = map2 (np_add_c K td td) (elems (t' ! p)) b))"
proof -
  let ?sh = "shifted K d v b"
  let ?p = "prox_val K f td ?sh tau"
  obtain s0 where run: "proximal K (TranslateFunction i f b) s x tau None =
      Inr (s0 @ [vec_of td (map2 (np_add_c K td td) ?p b)], Some (length s0))"
    using TranslateFunction_proximal_None [OF assms(1-4), of K i tau] assms(5,6,7) by auto
  let ?s' = "s0 @ [vec_of td (map2 (np_add_c K td td) ?p b)]"
  have sr: "?s' ! length s0 = vec_of td (map2 (np_add_c K td td) ?p b)" by simp
  have lsh: "length ?sh = n" using assms(2,4,6) by (simp add: shifted_def)
  have other: "\<exists>t' p. proximal K f t y tau None = Inr (t', Some p) \<and>
      elems (?s' ! length s0) = map2 (np_add_c K td td) (elems (t' ! p)) b"
    if "y < length t \<and> dtype (t ! y) = td \<and> elems (t ! y) = ?sh" for t y
  proof -
    have y: "y < length t" "dtype (t ! y) = td" "elems (t ! y) = ?sh"
      using that by simp_all
    have tdf: "td \<noteq> IntT" using assms(7) by (simp add: tmp_dtype_float)
    have "length (elems (t ! y)) = n" using y(3) lsh by simp
    from proximal_None_value [OF assms(1) y(1,2) tdf this, of K tau]
    obtain t' p where "proximal K f t y tau None = Inr (t', Some p)" "elems (t' ! p) = ?p"
      using y(3) by auto
    then show ?thesis
      using sr by auto
  qed
  show ?thesis
    using run sr other by (intro exI [of _ ?s'] exI [of _ "length s0"]) simp
qed

theorem TranslateFunction_proximal_shift_witness:
  "implements_proximal 2 (ConstantFunction 7) \<and> length [1, 1 :: real] = 2 \<and>
   (0::nat) < length [vec_of IntT [4, 6]] \<and> length (elems ([vec_of IntT [4, 6]] ! 0)) = 2 \<and>
   IntT = dtype ([vec_of IntT [4, 6]] ! 0) \<and> [4, 6] = elems ([vec_of IntT [4, 6]] ! 0) \<and>
   Float32 = tmp_dtype IntT \<and>
   (0::nat) < length [vec_of Float32 (shifted ieee IntT [4, 6] [1, 1])] \<and>
   dtype ([vec_of Float32 (shifted ieee IntT [4, 6] [1, 1])] ! 0) = Float32 \<and>
   (\<exists>s' r. proximal ieee (TranslateFunction 1 (ConstantFunction 7) [1, 1])
              [vec_of IntT [4, 6]] 0 3 None = Inr (s', Some r) \<and>
      dtype (s' ! r) = Float32 \<and>
      (\<forall>t y. y < length t \<and> dtype (t ! y) = Float32 \<and>
             elems (t ! y) = shifted ieee IntT [4, 6] [1, 1] \<longrightarrow>
         (\<exists>t' p. proximal ieee (ConstantFunction 7) t y 3 None = Inr (t', Some p) \<and>
            elems (s' ! r) = map2 (np_add_c ieee Float32 Float32) (elems (t' ! p)) [1, 1])))"
proof -
  have h1: "implements_proximal 2 (ConstantFunction 7)" by simp
  have h2: "length [1, 1 :: real] = 2" by simp
  have h3: "(0::nat) < length [vec_of IntT [4, 6]]" by simp
  have h4: "length (elems ([vec_of IntT [4, 6]] ! 0)) = 2" by simp
  have h5: "IntT = dtype ([vec_of IntT [4, 6]] ! 0)" by simp
  have h6: "[4, 6] = elems ([vec_of IntT [4, 6]] ! 0)" by simp
  have h7: "Float32 = tmp_dtype IntT" by (simp add: tmp_dtype_def)
  have y: "(0::nat) < length [vec_of Float32 (shifted ieee IntT [4, 6] [1, 1])]"
    "dtype ([vec_of Float32 (shifted ieee IntT [4, 6] [1, 1])] ! 0) = Float32" by simp_all
  note main = TranslateFunction_proximal_shift [OF h1 h2 h3 h4 h5 h6 h7, of ieee 1 3]
  show ?thesis
    by (intro conjI) (rule h1 h2 h3 h4 h5 h6 h7 y main)+
qed

text \<open>
  Claim C8 as stated fails on the allocating path: for the integer vector
  \<open>[16777218, 6]\<close> and the center \<open>[1, 1]\<close> around a \<open>ConstantFunction\<close> the call
  returns \<open>[16777216.0, 6.0]\<close>, where the proximal of \<open>x - b\<close> plus \<open>b\<close> is
  \<open>[16777218, 6]\<close>.
\<close>

theorem TranslateFunction_proximal_shift_counterexample:
  "proximal ieee (TranslateFunction 1 (ConstantFunction 7) [1, 1])
       [vec_of IntT [16777218, 6]] 0 3 None
     = Inr ([vec_of IntT [16777218, 6], vec_of Float32 [16777216, 5],
             vec_of Float32 [16777216, 6]], Some 2) \<and>
   proximal ieee (ConstantFunction 7) [vec_of Float64 (map2 (-) [16777218, 6] [1, 1])] 0 3 None
     = Inr ([vec_of Float64 [16777217, 5], vec_of Float64 [16777217, 5]], Some 1) \<and>
   [16777216, 6] \<noteq> map2 (+) [16777217, 5] [1, 1 :: real]"
  by (simp add: try_subtract_def subtract_out_def subtract_new_def new_vec_def copy_def
        add_center_out_def write_out_def ieee_def cast_def fl32_values fl32_2p24 fl32_2p24_1
        fl64_more)

text \<open>
  Claim C7.  For a \<open>ScaledFunction\<close> with scalar \<open>a\<close> around \<open>f\<close>, every store, vector,
  step and output buffer, \<open>proximal(x, tau, out)\<close> is \<open>f.proximal(x, tau * a, out)\<close> with
  Python's product \<open>tau * a\<close>: the same result and the same effect on the store.
\<close>

theorem ScaledFunction_proximal_step:
  "proximal K (ScaledFunction i f a) s x tau out = proximal K f s x (py_mul K tau a) out"
  by simp

end
